theory Spec2Isabelle
  imports Complex_Main "HOL-Library.Sublist"
begin

section \<open>Bounded buffers\<close>

text \<open>
  All three buffers of the program are \<^verbatim>\<open>collections.deque(maxlen=C)\<close> objects that are
  only ever written with \<^verbatim>\<open>append\<close>: \<^verbatim>\<open>frame_buffer\<close> in \<^verbatim>\<open>screen_capture.py\<close>,
  \<^verbatim>\<open>text_buffer\<close> in \<^verbatim>\<open>ocr_extractor.py\<close> and \<^verbatim>\<open>key_events\<close> in
  \<^verbatim>\<open>context_analyzer.py\<close>. A bounded deque appends on the right and, when that makes it
  longer than \<^verbatim>\<open>maxlen\<close>, discards one item on the left. The deque is modelled as the list
  of its items, oldest first.
\<close>

definition deque_append :: "nat \<Rightarrow> 'a list \<Rightarrow> 'a \<Rightarrow> 'a list" where
  "deque_append maxlen d x =
     (let d' = d @ [x] in if length d' > maxlen then tl d' else d')"

text \<open>A run of appends, in the order given.\<close>

definition deque_extend :: "nat \<Rightarrow> 'a list \<Rightarrow> 'a list \<Rightarrow> 'a list" where
  "deque_extend maxlen d xs = foldl (deque_append maxlen) d xs"

text \<open>
  \<^verbatim>\<open>ScreenCapture.__init__\<close>: \<^verbatim>\<open>deque(maxlen=max_frames)\<close> with
  \<^verbatim>\<open>max_frames = int(fps * buffer_duration)\<close>. The product is a float; its truncation is
  taken as the parameter \<open>max_frames\<close>.
  \<^verbatim>\<open>OCRExtractor.__init__\<close>: \<^verbatim>\<open>deque(maxlen=200)\<close>.
  \<^verbatim>\<open>ContextAnalyzer.__init__\<close>: \<^verbatim>\<open>deque(maxlen=max_history)\<close>, \<^verbatim>\<open>max_history = 50\<close> by
  default.
\<close>

definition frame_buffer_append :: "nat \<Rightarrow> 'f list \<Rightarrow> 'f \<Rightarrow> 'f list" where
  "frame_buffer_append max_frames = deque_append max_frames"

definition text_buffer_maxlen :: nat where
  "text_buffer_maxlen = 200"

definition text_buffer_append :: "'r list \<Rightarrow> 'r \<Rightarrow> 'r list" where
  "text_buffer_append = deque_append text_buffer_maxlen"

definition default_max_history :: nat where
  "default_max_history = 50"

definition key_events_append :: "nat \<Rightarrow> 'e list \<Rightarrow> 'e \<Rightarrow> 'e list" where
  "key_events_append max_history = deque_append max_history"

section \<open>Python strings\<close>

text \<open>
  Text is a list of characters. A \<^typ>\<open>char\<close> stands for a code point below 256; the
  classification and case mapping below are those of Python's \<^verbatim>\<open>str\<close> on that range.
\<close>

text \<open>\<^verbatim>\<open>str.isspace\<close> on one character: the characters \<^verbatim>\<open>str.strip()\<close> removes.\<close>

definition is_space :: "char \<Rightarrow> bool" where
  "is_space c =
     (let n = (of_char c :: nat)
      in (9 \<le> n \<and> n \<le> 13) \<or> (28 \<le> n \<and> n \<le> 32) \<or> n = 133 \<or> n = 160)"

text \<open>\<^verbatim>\<open>s.strip()\<close>\<close>

definition py_strip :: "string \<Rightarrow> string" where
  "py_strip s = rev (dropWhile is_space (rev (dropWhile is_space s)))"

text \<open>\<^verbatim>\<open>s.lower()\<close>\<close>

definition lower_char :: "char \<Rightarrow> char" where
  "lower_char c =
     (let n = (of_char c :: nat)
      in if (65 \<le> n \<and> n \<le> 90) \<or> (192 \<le> n \<and> n \<le> 222 \<and> n \<noteq> 215)
         then char_of (n + 32) else c)"

definition py_lower :: "string \<Rightarrow> string" where
  "py_lower s = map lower_char s"

text \<open>\<^verbatim>\<open>sep.join(xs)\<close>\<close>

fun py_join :: "string \<Rightarrow> string list \<Rightarrow> string" where
  "py_join sep [] = []"
| "py_join sep [x] = x"
| "py_join sep (x # y # ys) = x @ sep @ py_join sep (y # ys)"

text \<open>\<^verbatim>\<open>s.startswith(p)\<close>\<close>

definition startswith :: "string \<Rightarrow> string \<Rightarrow> bool" where
  "startswith s p = prefix p s"

text \<open>
  \<^verbatim>\<open>s.split("```")\<close>: the pieces of \<open>s\<close> between successive non-overlapping
  occurrences of three backticks, scanning from the left. \<open>acc\<close> holds the current
  piece, reversed.
\<close>

definition fence :: string where
  "fence = ''```''"

fun split_fence :: "string \<Rightarrow> string \<Rightarrow> string list" where
  "split_fence acc [] = [rev acc]"
| "split_fence acc (c # cs) =
     (if prefix fence (c # cs) then rev acc # split_fence [] (drop 2 cs)
      else split_fence (c # acc) cs)"

section \<open>The text-extraction stage (\<^verbatim>\<open>ocr_extractor.py\<close>)\<close>

text \<open>
  Times are seconds since the epoch and confidences are numbers; both are Python floats,
  taken here as the rationals they stand for. The rounding of float arithmetic (the
  subtraction in the cutoff, the sum and division of the mean confidence) is not modelled.
\<close>

type_synonym time = rat

text \<open>An entry of \<^verbatim>\<open>text_buffer\<close>: the dictionary with keys
  \<^verbatim>\<open>'timestamp'\<close>, \<^verbatim>\<open>'text'\<close>, \<^verbatim>\<open>'confidence'\<close>.\<close>

record text_record =
  rec_timestamp :: time
  rec_text :: string
  rec_confidence :: rat

text \<open>
  \<^verbatim>\<open>get_recent_text\<close>: the records whose timestamp is not before
  \<open>now - seconds\<close>, where \<open>now\<close> is the clock reading of the call.
\<close>

definition get_recent_text :: "time \<Rightarrow> rat \<Rightarrow> text_record list \<Rightarrow> text_record list" where
  "get_recent_text now seconds buffer =
     (let cutoff = now - seconds in filter (\<lambda>record. rec_timestamp record \<ge> cutoff) buffer)"

text \<open>
  The loop of \<^verbatim>\<open>get_combined_text\<close>, with its two variables \<^verbatim>\<open>seen_texts\<close> and
  \<^verbatim>\<open>unique_texts\<close>.
\<close>

fun dedup_loop :: "text_record list \<Rightarrow> string set \<times> string list \<Rightarrow> string set \<times> string list" where
  "dedup_loop [] st = st"
| "dedup_loop (record # records) (seen_texts, unique_texts) =
     (let text = py_strip (rec_text record);
          text_key = py_lower (take 50 text)
      in if text_key \<notin> seen_texts
         then dedup_loop records (insert text_key seen_texts, unique_texts @ [text])
         else dedup_loop records (seen_texts, unique_texts))"

text \<open>\<^verbatim>\<open>get_combined_text\<close> on the records of the window.\<close>

definition combine_records :: "text_record list \<Rightarrow> string" where
  "combine_records records = py_join ''\<newline>'' (snd (dedup_loop records ({}, [])))"

definition get_combined_text :: "time \<Rightarrow> rat \<Rightarrow> text_record list \<Rightarrow> string" where
  "get_combined_text now seconds buffer =
     combine_records (get_recent_text now seconds buffer)"

text \<open>
  The specification of \<open>combined_text\<close>, following its words: the distinctness key of a
  record is the lowercased first 50 characters of its stripped text; a record is kept when
  no earlier record of the window has its key; the kept texts are joined in order.
\<close>

definition distinctness_key :: "text_record \<Rightarrow> string" where
  "distinctness_key r = py_lower (take 50 (py_strip (rec_text r)))"

definition first_of_class :: "text_record list \<Rightarrow> nat \<Rightarrow> bool" where
  "first_of_class rs i = (distinctness_key (rs ! i) \<notin> set (map distinctness_key (take i rs)))"

definition combined_text_spec :: "text_record list \<Rightarrow> string" where
  "combined_text_spec rs =
     py_join ''\<newline>'' (map (\<lambda>i. py_strip (rec_text (rs ! i))) (filter (first_of_class rs) [0..<length rs]))"

subsection \<open>Extraction\<close>

text \<open>A raised Python \<^verbatim>\<open>Exception\<close>, with its message.\<close>

datatype exn = Exception string

text \<open>
  The recognizer is outside the program: \<^verbatim>\<open>np.array(image)\<close>, \<^verbatim>\<open>_get_reader()\<close> and
  \<^verbatim>\<open>reader.readtext(img_array)\<close> together are the parameter \<open>readtext\<close>, which either
  raises or returns the list of results \<^verbatim>\<open>(bbox, text, confidence)\<close>.
\<close>

type_synonym ('img, 'bbox) recognizer = "'img \<Rightarrow> exn + ('bbox \<times> string \<times> rat) list"

text \<open>The body of the \<^verbatim>\<open>try\<close> block of \<^verbatim>\<open>extract_text\<close>.\<close>

definition extract_text_try :: "('img, 'bbox) recognizer \<Rightarrow> 'img \<Rightarrow> exn + string \<times> rat" where
  "extract_text_try readtext img =
     (case readtext img of
        Inl e \<Rightarrow> Inl e
      | Inr results \<Rightarrow>
          if results = [] then Inr ('''', 0)
          else
            let texts = map (\<lambda>(bbox, text, confidence). text) results;
                confidences = map (\<lambda>(bbox, text, confidence). confidence) results;
                full_text = py_join '' '' texts;
                avg_confidence =
                  (if confidences \<noteq> [] then sum_list confidences / of_nat (length confidences)
                   else 0)
            in Inr (full_text, avg_confidence))"

text \<open>\<^verbatim>\<open>extract_text\<close>: the \<^verbatim>\<open>except Exception\<close> clause returns the empty result.\<close>

definition extract_text :: "('img, 'bbox) recognizer \<Rightarrow> 'img \<Rightarrow> string \<times> rat" where
  "extract_text readtext img =
     (case extract_text_try readtext img of
        Inl e \<Rightarrow> ('''', 0)
      | Inr r \<Rightarrow> r)"

text \<open>The fields of \<^verbatim>\<open>OCRExtractor\<close> that \<^verbatim>\<open>process_frame\<close> reads and writes.\<close>

record ocr_extractor =
  text_buffer :: "text_record list"
  processing :: bool
  last_extraction_time :: "time option"

text \<open>\<^verbatim>\<open>OCRExtractor.__init__\<close>\<close>

definition new_ocr_extractor :: ocr_extractor where
  "new_ocr_extractor = \<lparr>text_buffer = [], processing = False, last_extraction_time = None\<rparr>"

text \<open>
  The two early returns of \<^verbatim>\<open>process_frame\<close>: an extraction is in flight, or the last
  recorded extraction time is less than one second before \<open>now\<close>, the clock reading of
  the check.
\<close>

definition skips :: "ocr_extractor \<Rightarrow> time \<Rightarrow> bool" where
  "skips st now =
     (if processing st then True
      else case last_extraction_time st of
             Some t \<Rightarrow> now - t < 1
           | None \<Rightarrow> False)"

text \<open>
  \<^verbatim>\<open>process_frame\<close>. \<open>now\<close> is the clock reading of the rate-limit check and
  \<open>now'\<close> the reading after the extraction, stored as \<^verbatim>\<open>_last_extraction_time\<close>. The
  result is the returned text (\<open>None\<close> for Python's \<^verbatim>\<open>None\<close>) and the extractor after
  the call; the \<^verbatim>\<open>finally\<close> clause resets \<^verbatim>\<open>_processing\<close> on both exits of the
  \<^verbatim>\<open>try\<close> block.
\<close>

definition process_frame ::
  "('img, 'bbox) recognizer \<Rightarrow> time \<Rightarrow> time \<Rightarrow> ocr_extractor \<Rightarrow> time \<Rightarrow> 'img
     \<Rightarrow> string option \<times> ocr_extractor" where
  "process_frame readtext now now' st timestamp img =
     (if skips st now then (None, st)
      else
        let st1 = st\<lparr>processing := True\<rparr>;
            (text, confidence) = extract_text readtext img
        in if py_strip text \<noteq> []
           then (Some text,
                 st1\<lparr>text_buffer := text_buffer_append (text_buffer st1)
                        \<lparr>rec_timestamp = timestamp, rec_text = text, rec_confidence = confidence\<rparr>,
                     last_extraction_time := Some now',
                     processing := False\<rparr>)
           else (None, st1\<lparr>processing := False\<rparr>))"

section \<open>Parsed JSON values\<close>

text \<open>
  What \<^verbatim>\<open>json.loads\<close> returns: \<^verbatim>\<open>None\<close>, a bool, a number, a string, a list or a
  dictionary with string keys. A number is the rational it denotes (the values
  \<^verbatim>\<open>NaN\<close> and \<^verbatim>\<open>Infinity\<close> are left out). A dictionary is the list of its items in
  insertion order.
\<close>

datatype json =
    JNull
  | JBool bool
  | JNum rat
  | JStr string
  | JArr "json list"
  | JObj "(string \<times> json) list"

text \<open>
  Python's \<^verbatim>\<open>==\<close> on such values: a bool compares with a number as 0 or 1, lists
  compare item by item, dictionaries compare as mappings, and values of different kinds
  are unequal.
\<close>

fun py_eq :: "json \<Rightarrow> json \<Rightarrow> bool"
  and py_eq_list :: "json list \<Rightarrow> json list \<Rightarrow> bool"
  and py_eq_items :: "(string \<times> json) list \<Rightarrow> (string \<times> json) list \<Rightarrow> bool" where
  "py_eq JNull JNull = True"
| "py_eq (JBool a) (JBool b) = (a = b)"
| "py_eq (JBool a) (JNum n) = (of_bool a = n)"
| "py_eq (JNum n) (JBool b) = (n = of_bool b)"
| "py_eq (JNum a) (JNum b) = (a = b)"
| "py_eq (JStr a) (JStr b) = (a = b)"
| "py_eq (JArr xs) (JArr ys) = py_eq_list xs ys"
| "py_eq (JObj xs) (JObj ys) = (length xs = length ys \<and> py_eq_items xs ys)"
| "py_eq _ _ = False"
| "py_eq_list [] ys = (ys = [])"
| "py_eq_list (x # xs) ys = (case ys of [] \<Rightarrow> False | y # ys' \<Rightarrow> py_eq x y \<and> py_eq_list xs ys')"
| "py_eq_items [] ys = True"
| "py_eq_items ((k, v) # xs) ys =
     ((case map_of ys k of None \<Rightarrow> False | Some w \<Rightarrow> py_eq v w) \<and> py_eq_items xs ys)"

text \<open>\<^verbatim>\<open>d.get(key, default)\<close> on a dictionary; \<^verbatim>\<open>d.get(key)\<close> has the default \<^verbatim>\<open>None\<close>.\<close>

definition dict_get :: "(string \<times> json) list \<Rightarrow> string \<Rightarrow> json \<Rightarrow> json" where
  "dict_get d key dflt = (case map_of d key of Some v \<Rightarrow> v | None \<Rightarrow> dflt)"

text \<open>
  \<^verbatim>\<open>for info in key_info\<close>: a list yields its items, a string its characters, a
  dictionary its keys; any other value is not iterable and raises \<^verbatim>\<open>TypeError\<close>.
\<close>

definition py_iter :: "json \<Rightarrow> exn + json list" where
  "py_iter v =
     (case v of
        JArr xs \<Rightarrow> Inr xs
      | JStr s \<Rightarrow> Inr (map (\<lambda>c. JStr [c]) s)
      | JObj d \<Rightarrow> Inr (map (\<lambda>(k, v). JStr k) d)
      | _ \<Rightarrow> Inl (Exception ''TypeError''))"

section \<open>The aggregation stage (\<^verbatim>\<open>context_analyzer.py\<close>)\<close>

text \<open>An entry of \<^verbatim>\<open>key_events\<close>. The three fields taken from the response are JSON values.\<close>

record key_event =
  ev_timestamp :: time
  ev_type :: json
  ev_value :: json
  ev_context :: json

text \<open>
  The fields of \<^verbatim>\<open>ContextAnalyzer\<close> that an analysis reads and writes.
  \<^verbatim>\<open>current_activity\<close> and \<^verbatim>\<open>current_app\<close> start as strings and are overwritten with
  whatever the response holds.
\<close>

record analyzer =
  current_activity :: json
  current_app :: json
  key_events :: "key_event list"
  max_history :: nat
  last_analysis_time :: "time option"

text \<open>\<^verbatim>\<open>ContextAnalyzer.__init__\<close>\<close>

definition new_analyzer :: "nat \<Rightarrow> analyzer" where
  "new_analyzer maxlen =
     \<lparr>current_activity = JStr ''Starting up...'',
      current_app = JStr ''Unknown'',
      key_events = [],
      max_history = maxlen,
      last_analysis_time = None\<rparr>"

subsection \<open>The prompt\<close>

definition max_text_length :: nat where
  "max_text_length = 4000"

text \<open>The truncation at the head of \<^verbatim>\<open>_analyze_text\<close>.\<close>

definition truncate_text :: "string \<Rightarrow> string" where
  "truncate_text text =
     (if length text > max_text_length then take max_text_length text @ ''...'' else text)"

text \<open>The f-string: the text of the prompt before and after the embedded screen text.\<close>

definition prompt_head :: string where
  \<open>prompt_head =
     ''Analyze the following screen text captured from a user's computer and extract:\<newline>\<newline>'' @
     ''1. ACTIVITY: What is the user currently doing? (e.g., "writing an email", "browsing Reddit", "coding in VS Code")\<newline>'' @
     ''2. APPLICATION: What application or website are they using? (e.g., "Gmail", "Chrome - Reddit", "Visual Studio Code")\<newline>'' @
     ''3. KEY_INFO: Extract any important information that the user might need to remember, such as:\<newline>'' @
     ''   - OTP codes or verification codes\<newline>'' @
     ''   - Phone numbers\<newline>'' @
     ''   - Email addresses\<newline>'' @
     ''   - Names of people or companies\<newline>'' @
     ''   - URLs or links\<newline>'' @
     ''   - Prices or amounts\<newline>'' @
     ''   - Dates or times\<newline>'' @
     ''   - Order numbers or tracking numbers\<newline>'' @
     ''   - Any other critical information\<newline>\<newline>'' @
     ''Screen text:\<newline>---\<newline>''\<close>

definition prompt_tail :: string where
  \<open>prompt_tail =
     ''\<newline>---\<newline>\<newline>'' @
     ''Respond in the following JSON format only (no markdown, no extra text):\<newline>'' @
     ''{\<newline>'' @
     ''    "activity": "brief description of what user is doing",\<newline>'' @
     ''    "application": "name of app or website",\<newline>'' @
     ''    "key_info": [\<newline>'' @
     ''        {"type": "otp", "value": "123456", "context": "from Gmail"},\<newline>'' @
     ''        {"type": "email", "value": "person@example.com", "context": "sender"},\<newline>'' @
     ''        {"type": "name", "value": "John Smith", "context": "contact name"}\<newline>'' @
     ''    ]\<newline>'' @
     ''}\<newline>\<newline>'' @
     ''If no key information is found, return an empty array for key_info.\<newline>'' @
     ''Only include key_info items that are clearly important - don't include generic UI text.''\<close>

definition make_prompt :: "string \<Rightarrow> string" where
  "make_prompt text = prompt_head @ text @ prompt_tail"

text \<open>The prompt that \<^verbatim>\<open>_analyze_text(text)\<close> passes to \<^verbatim>\<open>provider.analyze\<close>.\<close>

definition analysis_prompt :: "string \<Rightarrow> string" where
  "analysis_prompt text = make_prompt (truncate_text text)"

subsection \<open>Cleaning the response\<close>

text \<open>
  Lines 273 to 278: strip; when the text starts with three backticks keep the piece after
  the first fence, without a leading \<^verbatim>\<open>json\<close>; strip again. The index 1 of the split
  exists whenever the text starts with the fence; the other case is kept as the
  \<^verbatim>\<open>IndexError\<close> it would be.
\<close>

definition clean_response :: "string \<Rightarrow> exn + string" where
  "clean_response result_text =
     (let r1 = py_strip result_text
      in if startswith r1 fence
         then (case split_fence [] r1 of
                 a # b # rest \<Rightarrow>
                   Inr (py_strip (if startswith b ''json'' then drop 4 b else b))
               | _ \<Rightarrow> Inl (Exception ''IndexError''))
         else Inr (py_strip r1))"

subsection \<open>Merging a parsed response\<close>

text \<open>The inner loop over \<^verbatim>\<open>self.key_events\<close> that sets \<^verbatim>\<open>is_duplicate\<close>.\<close>

fun is_duplicate :: "key_event list \<Rightarrow> json \<Rightarrow> json \<Rightarrow> bool" where
  "is_duplicate [] ty val = False"
| "is_duplicate (existing # es) ty val =
     (if py_eq (ev_type existing) ty \<and> py_eq (ev_value existing) val then True
      else is_duplicate es ty val)"

text \<open>
  The loop \<^verbatim>\<open>for info in key_info\<close>. The events are updated in place, so when an item
  raises (it is not a dictionary and has no \<^verbatim>\<open>get\<close>) the events appended so far stay:
  the result is the collection at the end of the loop or at the raise, and the exception
  if there was one. The duplicate check reads \<^verbatim>\<open>info.get('type')\<close> and
  \<^verbatim>\<open>info.get('value')\<close> (\<^verbatim>\<open>None\<close> when absent); the stored event reads the fields
  with the defaults \<^verbatim>\<open>'info'\<close>, \<^verbatim>\<open>''\<close>, \<^verbatim>\<open>''\<close>.
\<close>

fun merge_key_info :: "time \<Rightarrow> nat \<Rightarrow> key_event list \<Rightarrow> json list \<Rightarrow> key_event list \<times> exn option" where
  "merge_key_info ts maxlen events [] = (events, None)"
| "merge_key_info ts maxlen events (JObj info # rest) =
     (if \<not> is_duplicate events (dict_get info ''type'' JNull) (dict_get info ''value'' JNull)
      then merge_key_info ts maxlen
             (key_events_append maxlen events
                \<lparr>ev_timestamp = ts,
                 ev_type = dict_get info ''type'' (JStr ''info''),
                 ev_value = dict_get info ''value'' (JStr ''''),
                 ev_context = dict_get info ''context'' (JStr '''')\<rparr>)
             rest
      else merge_key_info ts maxlen events rest)"
| "merge_key_info ts maxlen events (info # rest) = (events, Some (Exception ''AttributeError''))"

text \<open>
  Lines 283 to 306, the block under the lock, on the parsed \<open>result\<close>; \<open>ts\<close> is the
  clock reading of line 289. A result that is not a dictionary raises at the first
  \<^verbatim>\<open>result.get\<close>; a \<^verbatim>\<open>key_info\<close> that cannot be iterated raises after activity and
  application have been assigned.
\<close>

definition merge_result :: "time \<Rightarrow> analyzer \<Rightarrow> json \<Rightarrow> analyzer \<times> exn option" where
  "merge_result ts st result =
     (case result of
        JObj d \<Rightarrow>
          let st1 = st\<lparr>current_activity := dict_get d ''activity'' (current_activity st)\<rparr>;
              st2 = st1\<lparr>current_app := dict_get d ''application'' (current_app st1)\<rparr>;
              key_info = dict_get d ''key_info'' (JArr [])
          in (case py_iter key_info of
                Inl e \<Rightarrow> (st2, Some e)
              | Inr items \<Rightarrow>
                  let (events, raised) = merge_key_info ts (max_history st2) (key_events st2) items
                  in (st2\<lparr>key_events := events\<rparr>, raised))
      | _ \<Rightarrow> (st, Some (Exception ''AttributeError'')))"

subsection \<open>One analysis\<close>

text \<open>
  The provider and \<^verbatim>\<open>json.loads\<close> are outside the program and are parameters:
  \<open>provider\<close> is the result of \<^verbatim>\<open>_get_provider()\<close>, an exception or the
  \<^verbatim>\<open>analyze\<close> method, which raises or returns the response text; \<open>loads\<close> raises
  (\<^verbatim>\<open>JSONDecodeError\<close>) or returns the parsed value.
\<close>

type_synonym llm_provider = "exn + (string \<Rightarrow> exn + string)"

type_synonym json_loads = "string \<Rightarrow> exn + json"

text \<open>
  \<^verbatim>\<open>_analyze_text\<close>. Both \<^verbatim>\<open>except\<close> clauses only print, so an exception ends the
  call with the analyzer as it is at that point. \<open>ts\<close> is the clock reading of line 289
  and \<open>now\<close> that of line 308.
\<close>

definition analyze_text :: "llm_provider \<Rightarrow> json_loads \<Rightarrow> time \<Rightarrow> time \<Rightarrow> analyzer \<Rightarrow> string \<Rightarrow> analyzer" where
  "analyze_text provider loads ts now st text =
     (case provider of
        Inl e \<Rightarrow> st
      | Inr analyze \<Rightarrow>
          (case analyze (analysis_prompt text) of
             Inl e \<Rightarrow> st
           | Inr result_text \<Rightarrow>
               (case clean_response result_text of
                  Inl e \<Rightarrow> st
                | Inr cleaned \<Rightarrow>
                    (case loads cleaned of
                       Inl e \<Rightarrow> st
                     | Inr result \<Rightarrow>
                         (case merge_result ts st result of
                            (st', Some e) \<Rightarrow> st'
                          | (st', None) \<Rightarrow> st'\<lparr>last_analysis_time := Some now\<rparr>)))))"




subsection \<open>The uniqueness invariant of the key events\<close>

text \<open>
  No event of the collection has the type and the value of an earlier one, compared as the
  duplicate check compares them.
\<close>

fun unique_events :: "key_event list \<Rightarrow> bool" where
  "unique_events [] = True"
| "unique_events (e # es) =
     (\<not> list_ex (\<lambda>e'. py_eq (ev_type e) (ev_type e') \<and> py_eq (ev_value e) (ev_value e')) es
      \<and> unique_events es)"

text \<open>A \<^verbatim>\<open>key_info\<close> item that is a dictionary holding both a type and a value.\<close>

fun has_type_and_value :: "json \<Rightarrow> bool" where
  "has_type_and_value (JObj info) = (map_of info ''type'' \<noteq> None \<and> map_of info ''value'' \<noteq> None)"
| "has_type_and_value _ = False"

section \<open>Concrete inputs used in the examples\<close>

text \<open>A recognizer that always raises.\<close>

definition failing_recognizer :: "(nat, unit) recognizer" where
  "failing_recognizer i = Inl (Exception ''device lost'')"

text \<open>A recognizer that finds nothing on frame 0 (a blank screen) and one line on any other.\<close>

definition blank_then_text :: "(nat, unit) recognizer" where
  "blank_then_text i = (if i = 0 then Inr [] else Inr [((), ''hello'', 9 / 10)])"

text \<open>A stub provider that answers every prompt with the given response text.\<close>

definition stub_provider :: "string \<Rightarrow> llm_provider" where
  "stub_provider response = Inr (\<lambda>prompt. Inr response)"

text \<open>A response wrapped in a code fence: the fence line with its tag, the body, the closing fence line.\<close>

definition wrap_fence :: "string \<Rightarrow> string \<Rightarrow> string" where
  "wrap_fence tag body = fence @ tag @ ''\<newline>'' @ body @ ''\<newline>'' @ fence"

text \<open>Response texts.\<close>

definition response_two_equal_items :: string where
  \<open>response_two_equal_items =
     ''{"activity": "reading mail", "application": "Mail", "key_info": [{"value": "x"}, {"value": "x"}]}''\<close>

definition response_defaulted_item :: string where
  \<open>response_defaulted_item =
     ''{"activity": "reading mail", "application": "Mail", "key_info": [{"type": "info", "value": ""}, {}]}''\<close>

definition response_otp_twice :: string where
  \<open>response_otp_twice =
     ''{"key_info": [{"type": "otp", "value": "123456", "context": "A"}, {"type": "otp", "value": "123456", "context": "B"}]}''\<close>

definition response_bad_key_info :: string where
  \<open>response_bad_key_info = ''{"activity": "a", "application": "b", "key_info": 7}''\<close>

definition response_not_an_object :: string where
  \<open>response_not_an_object = ''["banking", "Bank App"]''\<close>

definition response_malformed :: string where
  \<open>response_malformed = ''{"activity": "a",''\<close>

definition response_with_backticks :: string where
  \<open>response_with_backticks = ''{"activity": "a```b"}''\<close>

text \<open>What the cleaning step cuts out of the fenced \<open>response_with_backticks\<close>.\<close>

definition piece_before_backticks :: string where
  \<open>piece_before_backticks = ''{"activity": "a''\<close>

definition response_plain :: string where
  \<open>response_plain = ''{"activity": "banking"}''\<close>

text \<open>
  A response of the required shape, and two ways of returning it that are not JSON as
  returned: in a code fence followed by a line of prose, and after a form feed.
\<close>

definition response_conforming :: string where
  \<open>response_conforming = ''{"activity": "a", "application": "b", "key_info": []}''\<close>

definition response_fence_then_prose :: string where
  \<open>response_fence_then_prose =
     wrap_fence ''json'' response_conforming @ ''\<newline>Hope this helps!''\<close>

definition response_form_feed :: string where
  \<open>response_form_feed = CHR 0x0C # response_conforming\<close>

text \<open>
  The value of \<^verbatim>\<open>json.loads\<close> at the texts the examples hand to it: the responses above
  and the pieces that the cleaning step cuts out of them. The table stands for the parser
  on these texts only; every other text is entered as a decode error.
\<close>

definition example_loads :: json_loads where
  \<open>example_loads s =
     (if s = response_two_equal_items then
        Inr (JObj [(''activity'', JStr ''reading mail''), (''application'', JStr ''Mail''),
                   (''key_info'', JArr [JObj [(''value'', JStr ''x'')], JObj [(''value'', JStr ''x'')]])])
      else if s = response_defaulted_item then
        Inr (JObj [(''activity'', JStr ''reading mail''), (''application'', JStr ''Mail''),
                   (''key_info'', JArr [JObj [(''type'', JStr ''info''), (''value'', JStr '''')], JObj []])])
      else if s = response_otp_twice then
        Inr (JObj [(''key_info'',
                    JArr [JObj [(''type'', JStr ''otp''), (''value'', JStr ''123456''), (''context'', JStr ''A'')],
                          JObj [(''type'', JStr ''otp''), (''value'', JStr ''123456''), (''context'', JStr ''B'')]])])
      else if s = response_bad_key_info then
        Inr (JObj [(''activity'', JStr ''a''), (''application'', JStr ''b''), (''key_info'', JNum 7)])
      else if s = response_not_an_object then
        Inr (JArr [JStr ''banking'', JStr ''Bank App''])
      else if s = response_with_backticks then
        Inr (JObj [(''activity'', JStr ''a```b'')])
      else if s = response_plain then
        Inr (JObj [(''activity'', JStr ''banking'')])
      else if s = response_malformed then Inl (Exception ''JSONDecodeError'')
      else if s = piece_before_backticks then Inl (Exception ''JSONDecodeError'')
      else if s = response_conforming then
        Inr (JObj [(''activity'', JStr ''a''), (''application'', JStr ''b''), (''key_info'', JArr [])])
      else if s = response_fence_then_prose then Inl (Exception ''JSONDecodeError'')
      else if s = response_form_feed then Inl (Exception ''JSONDecodeError'')
      else Inl (Exception ''JSONDecodeError''))\<close>

text \<open>Whether three consecutive backticks occur in a text.\<close>

fun contains_fence :: "string \<Rightarrow> bool" where
  "contains_fence [] = False"
| "contains_fence (c # cs) = (prefix fence (c # cs) \<or> contains_fence cs)"

section \<open>Properties of the bounded buffers\<close>

lemma deque_append_drop:
  "deque_append c (drop (length xs - c) xs) x = drop (length (xs @ [x]) - c) (xs @ [x])"
proof (cases "length xs < c")
  case True
  then show ?thesis by (simp add: deque_append_def Let_def)
next
  case False
  then have le: "c \<le> length xs" by simp
  then have len: "length (drop (length xs - c) xs @ [x]) = Suc c" by simp
  have "tl (drop (length xs - c) xs @ [x]) = drop (Suc (length xs - c)) (xs @ [x])"
  proof (cases "c = 0")
    case True
    then show ?thesis by simp
  next
    case False
    with le have ne: "drop (length xs - c) xs \<noteq> []" and lt: "Suc (length xs - c) \<le> length xs"
      by simp_all
    have "tl (drop (length xs - c) xs @ [x]) = tl (drop (length xs - c) xs) @ [x]"
      using ne by (simp add: tl_append2)
    also have "\<dots> = drop (Suc (length xs - c)) xs @ [x]"
      by (simp add: drop_Suc tl_drop)
    also have "\<dots> = drop (Suc (length xs - c)) (xs @ [x])"
      using lt by simp
    finally show ?thesis .
  qed
  moreover have "Suc (length xs - c) = length (xs @ [x]) - c"
    using le by simp
  ultimately show ?thesis
    using len by (simp add: deque_append_def Let_def)
qed

lemma deque_extend_from_empty:
  "deque_extend c [] xs = drop (length xs - c) xs"
proof (induction xs rule: rev_induct)
  case Nil
  then show ?case by (simp add: deque_extend_def)
next
  case (snoc x xs)
  have "deque_extend c [] (xs @ [x]) = deque_append c (deque_extend c [] xs) x"
    by (simp add: deque_extend_def)
  then show ?case
    using snoc.IH deque_append_drop [of c xs x] by simp
qed

text \<open>
  Claim C2. After any sequence of N appends to an empty buffer of capacity C, whichever of
  the three buffers it is, the buffer holds exactly min N C items: the last min N C items
  appended, in the order they were appended.
\<close>

theorem bounded_buffers_keep_most_recent:
  "(foldl (frame_buffer_append max_frames) [] fs = drop (length fs - max_frames) fs
      \<and> length (foldl (frame_buffer_append max_frames) [] fs) = min (length fs) max_frames)
   \<and> (foldl text_buffer_append [] rs = drop (length rs - 200) rs
      \<and> length (foldl text_buffer_append [] rs) = min (length rs) 200)
   \<and> (foldl (key_events_append cap) [] es = drop (length es - cap) es
      \<and> length (foldl (key_events_append cap) [] es) = min (length es) cap)
   \<and> (foldl (key_events_append default_max_history) [] es = drop (length es - 50) es
      \<and> length (foldl (key_events_append default_max_history) [] es) = min (length es) 50)"
proof -
  have gen: "foldl (deque_append c) [] xs = drop (length xs - c) xs
      \<and> length (foldl (deque_append c) [] xs) = min (length xs) c" for c and xs :: "'x list"
  proof -
    have eq: "foldl (deque_append c) [] xs = drop (length xs - c) xs"
      using deque_extend_from_empty [of c xs] by (simp add: deque_extend_def)
    have "length (drop (length xs - c) xs) = min (length xs) c"
      by (simp add: min_def)
    with eq show ?thesis by simp
  qed
  show ?thesis
    unfolding frame_buffer_append_def text_buffer_append_def text_buffer_maxlen_def
      key_events_append_def default_max_history_def
    using gen [of max_frames fs] gen [of 200 rs] gen [of cap es] gen [of 50 es]
    by blast
qed

section \<open>Deduplication of the combined text\<close>

lemma dedup_loop_append:
  "dedup_loop (xs @ ys) st = dedup_loop ys (dedup_loop xs st)"
proof (induction xs arbitrary: st)
  case Nil
  then show ?case by simp
next
  case (Cons x xs)
  obtain seen unique where st: "st = (seen, unique)" by (cases st)
  show ?case unfolding st by (simp add: Let_def Cons.IH)
qed

lemma first_of_class_snoc:
  "i < length rs \<Longrightarrow> first_of_class (rs @ [r]) i = first_of_class rs i"
  by (simp add: first_of_class_def nth_append)

lemma kept_indices_snoc:
  "filter (first_of_class (rs @ [r])) [0..<length (rs @ [r])] =
     filter (first_of_class rs) [0..<length rs] @
     (if distinctness_key r \<in> set (map distinctness_key rs) then [] else [length rs])"
proof -
  have "filter (first_of_class (rs @ [r])) [0..<length rs] = filter (first_of_class rs) [0..<length rs]"
    by (rule filter_cong) (simp_all add: first_of_class_snoc)
  moreover have "first_of_class (rs @ [r]) (length rs) =
      (distinctness_key r \<notin> set (map distinctness_key rs))"
    by (simp add: first_of_class_def)
  ultimately show ?thesis by simp
qed

lemma kept_texts_snoc:
  "map (\<lambda>i. py_strip (rec_text ((rs @ [r]) ! i))) (filter (first_of_class (rs @ [r])) [0..<length (rs @ [r])]) =
     map (\<lambda>i. py_strip (rec_text (rs ! i))) (filter (first_of_class rs) [0..<length rs]) @
     (if distinctness_key r \<in> set (map distinctness_key rs) then [] else [py_strip (rec_text r)])"
proof -
  have "map (\<lambda>i. py_strip (rec_text ((rs @ [r]) ! i))) (filter (first_of_class rs) [0..<length rs]) =
      map (\<lambda>i. py_strip (rec_text (rs ! i))) (filter (first_of_class rs) [0..<length rs])"
    by (rule map_cong) (simp_all add: nth_append)
  then show ?thesis
    unfolding kept_indices_snoc by simp
qed

lemma dedup_loop_invariant:
  "dedup_loop rs ({}, []) =
     (set (map distinctness_key rs),
      map (\<lambda>i. py_strip (rec_text (rs ! i))) (filter (first_of_class rs) [0..<length rs]))"
proof (induction rs rule: rev_induct)
  case Nil
  then show ?case by simp
next
  case (snoc r rs)
  have "dedup_loop (rs @ [r]) ({}, []) = dedup_loop [r] (dedup_loop rs ({}, []))"
    by (rule dedup_loop_append)
  also have "\<dots> = dedup_loop [r] (set (map distinctness_key rs),
      map (\<lambda>i. py_strip (rec_text (rs ! i))) (filter (first_of_class rs) [0..<length rs]))"
    by (simp only: snoc.IH)
  finally show ?case
    unfolding kept_texts_snoc by (auto simp: Let_def distinctness_key_def)
qed

text \<open>
  Claim C3. For every sequence of text records in the queried window,
  \<^verbatim>\<open>get_combined_text\<close> returns the stripped texts of exactly those records whose
  distinctness key (the lowercased first 50 characters of the stripped text) did not occur
  at an earlier record of the window, joined by newlines in insertion order; a record whose
  key occurred earlier is dropped.
\<close>

theorem get_combined_text_first_of_each_class:
  "get_combined_text now seconds buffer =
     combined_text_spec (get_recent_text now seconds buffer)"
  by (simp add: get_combined_text_def combine_records_def combined_text_spec_def
      dedup_loop_invariant)

section \<open>The extraction stage: skipping, failures and the rate limit\<close>

lemma process_frame_skipped:
  "skips st now \<Longrightarrow> process_frame readtext now now' st ts img = (None, st)"
  by (simp add: process_frame_def)

lemma skips_in_flight:
  "processing st \<Longrightarrow> skips st now"
  by (simp add: skips_def)

lemma skips_recent:
  "last_extraction_time st = Some t \<Longrightarrow> now - t < 1 \<Longrightarrow> skips st now"
  by (simp add: skips_def)

lemma not_skips_idle:
  "\<not> skips st now \<Longrightarrow> \<not> processing st"
  by (auto simp: skips_def split: if_splits)

lemma extract_text_failure:
  "readtext img = Inl e \<Longrightarrow> extract_text readtext img = ('''', 0)"
  by (simp add: extract_text_def extract_text_try_def)

lemma py_strip_empty: "py_strip [] = []"
  by (simp add: py_strip_def)

text \<open>
  Claim C9. A failure of the recognizer is absorbed: \<^verbatim>\<open>extract_text\<close> returns the pair
  of the empty text and confidence 0 (its result is always a pair: the handler covers the
  whole body), and the \<^verbatim>\<open>process_frame\<close> call that ran it returns \<^verbatim>\<open>None\<close>, leaves
  the text buffer and the recorded extraction time as they were, and leaves the in-flight
  flag false, so the extractor is as it was before the call.
\<close>

theorem recognizer_failure_absorbed:
  assumes "readtext img = Inl e" and "\<not> skips st now"
  shows "extract_text readtext img = ('''', 0)
    \<and> fst (process_frame readtext now now' st ts img) = None
    \<and> text_buffer (snd (process_frame readtext now now' st ts img)) = text_buffer st
    \<and> last_extraction_time (snd (process_frame readtext now now' st ts img)) = last_extraction_time st
    \<and> processing (snd (process_frame readtext now now' st ts img)) = False
    \<and> snd (process_frame readtext now now' st ts img) = st"
proof -
  have ex: "extract_text readtext img = ('''', 0)"
    using assms(1) by (rule extract_text_failure)
  have idle: "\<not> processing st"
    using assms(2) by (rule not_skips_idle)
  then have same: "st\<lparr>processing := False\<rparr> = st" by simp
  have pf: "process_frame readtext now now' st ts img = (None, st)"
    using assms(2) same by (simp add: process_frame_def ex py_strip_empty)
  show ?thesis
    using idle by (simp add: pf ex)
qed

theorem recognizer_failure_absorbed_witness:
  "failing_recognizer 0 = Inl (Exception ''device lost'')
   \<and> \<not> skips new_ocr_extractor 100
   \<and> extract_text failing_recognizer 0 = ('''', 0)
   \<and> process_frame failing_recognizer 100 101 new_ocr_extractor 100 0 = (None, new_ocr_extractor)
   \<and> processing new_ocr_extractor = False"
proof -
  have a: "failing_recognizer 0 = Inl (Exception ''device lost'')"
    by (simp add: failing_recognizer_def)
  have b: "\<not> skips new_ocr_extractor 100"
    by (simp add: skips_def new_ocr_extractor_def)
  have c: "processing new_ocr_extractor = False"
    by (simp add: new_ocr_extractor_def)
  show ?thesis
    using recognizer_failure_absorbed [of failing_recognizer 0 "Exception ''device lost''"
        new_ocr_extractor 100 101 100, OF a b] a b c
    by (simp add: prod_eq_iff)
qed

lemma successful_extraction_recorded:
  "process_frame readtext now now' st ts img = (Some t, st') \<Longrightarrow>
     last_extraction_time st' = Some now' \<and> \<not> processing st'"
  by (auto simp: process_frame_def Let_def split: if_splits prod.splits)

lemma successful_extraction_rate_limits:
  "process_frame readtext now now' st ts img = (Some t, st') \<Longrightarrow> now2 - now' < 1 \<Longrightarrow>
     process_frame readtext2 now2 now2' st' ts2 img2 = (None, st')"
  using successful_extraction_recorded [of readtext now now' st ts img t st']
  by (simp add: process_frame_skipped skips_recent)

lemma py_strip_hello: "py_strip ''hello'' = ''hello''"
  by (simp add: py_strip_def is_space_def)

text \<open>
  Claim C7, on the code. The extraction time is recorded only when the extracted text is
  not blank. On a fresh extractor, a first call at time 100 on a blank frame runs the
  recognizer, returns \<^verbatim>\<open>None\<close> and leaves the extractor as it was; a second call a tenth
  of a second later is therefore not skipped: it runs the recognizer again, returns the
  text and appends a record.
\<close>

theorem blank_extraction_not_rate_limited:
  "\<not> skips new_ocr_extractor 100
   \<and> process_frame blank_then_text 100 (100 + 1 / 20) new_ocr_extractor 100 0
       = (None, new_ocr_extractor)
   \<and> \<not> skips new_ocr_extractor (100 + 1 / 10)
   \<and> process_frame blank_then_text (100 + 1 / 10) (100 + 3 / 20) new_ocr_extractor (100 + 1 / 10) 1
       = (Some ''hello'',
          \<lparr>text_buffer = [\<lparr>rec_timestamp = 100 + 1 / 10, rec_text = ''hello'', rec_confidence = 9 / 10\<rparr>],
           processing = False,
           last_extraction_time = Some (100 + 3 / 20)\<rparr>)"
  by (simp add: skips_def new_ocr_extractor_def process_frame_def blank_then_text_def
      extract_text_def extract_text_try_def py_strip_empty py_strip_hello
      text_buffer_append_def text_buffer_maxlen_def deque_append_def)

section \<open>The aggregation stage: responses that do not parse\<close>




lemma py_strip_no_space:
  "s \<noteq> [] \<Longrightarrow> \<not> is_space (hd s) \<Longrightarrow> \<not> is_space (last s) \<Longrightarrow> py_strip s = s"
proof -
  assume ne: "s \<noteq> []" and h: "\<not> is_space (hd s)" and l: "\<not> is_space (last s)"
  from ne h have "dropWhile is_space s = s"
    by (cases s) simp_all
  moreover from ne l have "dropWhile is_space (rev s) = rev s"
    by (cases "rev s") (simp_all add: hd_rev [symmetric])
  ultimately show ?thesis by (simp add: py_strip_def)
qed













section \<open>The aggregation stage: responses of another shape\<close>








section \<open>The text embedded in the prompt\<close>

text \<open>
  Claim C6, as stated, fails. A text of 4001 characters is cut to its first 4000
  characters and three dots are appended, so 4003 characters are embedded in the prompt.
\<close>

theorem embedded_text_exceeds_budget:
  "length (truncate_text (replicate 4001 CHR ''a'')) = 4003
   \<and> analysis_prompt (replicate 4001 CHR ''a'')
       = prompt_head @ replicate 4000 CHR ''a'' @ ''...'' @ prompt_tail"
  by (simp add: truncate_text_def max_text_length_def analysis_prompt_def make_prompt_def)

text \<open>
  Claim C6, amended. The prompt sent to the external analysis capability embeds, between
  its fixed head and tail, the input text unchanged when the input has at most 4000
  characters, and otherwise the first 4000 characters of the input followed by the marker
  \<^verbatim>\<open>...\<close>; the embedded text is therefore at most 4003 characters long.
\<close>

theorem embedded_text_truncated:
  "analysis_prompt text = prompt_head @ truncate_text text @ prompt_tail
   \<and> (length text \<le> 4000 \<longrightarrow> truncate_text text = text)
   \<and> (length text > 4000 \<longrightarrow> truncate_text text = take 4000 text @ ''...'')
   \<and> length (truncate_text text) \<le> 4003"
  by (simp add: truncate_text_def max_text_length_def analysis_prompt_def make_prompt_def)

theorem embedded_text_truncated_witness:
  "length ''OTP is 999111'' \<le> 4000
   \<and> truncate_text ''OTP is 999111'' = ''OTP is 999111''
   \<and> analysis_prompt ''OTP is 999111'' = prompt_head @ ''OTP is 999111'' @ prompt_tail
   \<and> length (replicate 5000 CHR ''a'') > 4000
   \<and> truncate_text (replicate 5000 CHR ''a'') = replicate 4000 CHR ''a'' @ ''...''
   \<and> length (truncate_text (replicate 5000 CHR ''a'')) \<le> 4003"
  using embedded_text_truncated [of "''OTP is 999111''"]
    embedded_text_truncated [of "replicate 5000 CHR ''a''"]
  by simp

section \<open>Key events: the duplicate check\<close>

lemma clean_response_two_equal_items:
  "clean_response response_two_equal_items = Inr response_two_equal_items"
  by (simp add: clean_response_def response_two_equal_items_def py_strip_def is_space_def
      startswith_def fence_def)

lemma example_loads_two_equal_items:
  "example_loads response_two_equal_items =
     Inr (JObj [(''activity'', JStr ''reading mail''), (''application'', JStr ''Mail''),
                (''key_info'', JArr [JObj [(''value'', JStr ''x'')], JObj [(''value'', JStr ''x'')]])])"
  by (simp add: example_loads_def)

lemma clean_response_defaulted_item:
  "clean_response response_defaulted_item = Inr response_defaulted_item"
  by (simp add: clean_response_def response_defaulted_item_def py_strip_def is_space_def
      startswith_def fence_def)

lemma example_loads_defaulted_item:
  "example_loads response_defaulted_item =
     Inr (JObj [(''activity'', JStr ''reading mail''), (''application'', JStr ''Mail''),
                (''key_info'', JArr [JObj [(''type'', JStr ''info''), (''value'', JStr '''')], JObj []])])"
  by (simp add: example_loads_def response_two_equal_items_def response_defaulted_item_def)

lemma clean_response_otp_twice:
  "clean_response response_otp_twice = Inr response_otp_twice"
  by (simp add: clean_response_def response_otp_twice_def py_strip_def is_space_def
      startswith_def fence_def)

lemma example_loads_otp_twice:
  "example_loads response_otp_twice =
     Inr (JObj [(''key_info'',
                 JArr [JObj [(''type'', JStr ''otp''), (''value'', JStr ''123456''), (''context'', JStr ''A'')],
                       JObj [(''type'', JStr ''otp''), (''value'', JStr ''123456''), (''context'', JStr ''B'')]])])"
  by (simp add: example_loads_def response_two_equal_items_def response_defaulted_item_def
      response_otp_twice_def)

text \<open>
  The example of the specification: two items with type \<^verbatim>\<open>otp\<close> and value
  \<^verbatim>\<open>123456\<close> in one result leave one stored event, the first.
\<close>

lemma otp_twice_stored_once:
  "key_events (analyze_text (stub_provider response_otp_twice) example_loads 10 11 (new_analyzer 50) ''Inbox'')
     = [\<lparr>ev_timestamp = 10, ev_type = JStr ''otp'', ev_value = JStr ''123456'', ev_context = JStr ''A''\<rparr>]"
  by (simp add: analyze_text_def stub_provider_def clean_response_otp_twice example_loads_otp_twice
      merge_result_def dict_get_def py_iter_def new_analyzer_def key_events_append_def
      deque_append_def)

text \<open>
  Claim C1, on the code. The duplicate check compares the stored type and value with
  \<^verbatim>\<open>info.get('type')\<close> and \<^verbatim>\<open>info.get('value')\<close>, which are \<^verbatim>\<open>None\<close> for an absent
  field, while the event is stored with the defaults. Two items \<^verbatim>\<open>{"value": "x"}\<close> in
  one result are both appended: the collection then holds two events of type \<^verbatim>\<open>info\<close>
  and value \<^verbatim>\<open>x\<close>.
\<close>

theorem equal_items_without_type_stored_twice:
  "key_events (analyze_text (stub_provider response_two_equal_items) example_loads 10 11
       (new_analyzer 50) ''Inbox'')
     = [\<lparr>ev_timestamp = 10, ev_type = JStr ''info'', ev_value = JStr ''x'', ev_context = JStr ''''\<rparr>,
        \<lparr>ev_timestamp = 10, ev_type = JStr ''info'', ev_value = JStr ''x'', ev_context = JStr ''''\<rparr>]"
  by (simp add: analyze_text_def stub_provider_def clean_response_two_equal_items
      example_loads_two_equal_items merge_result_def dict_get_def py_iter_def new_analyzer_def
      key_events_append_def deque_append_def)

text \<open>
  Claim C10, on the code. An item without fields is stored as type \<^verbatim>\<open>info\<close>, value
  \<^verbatim>\<open>''\<close>, context \<^verbatim>\<open>''\<close>, but these defaults take no part in the duplicate check:
  after the item \<^verbatim>\<open>{"type": "info", "value": ""}\<close> has been stored, the item \<^verbatim>\<open>{}\<close>
  of the same result is stored too, with the same type and value.
\<close>

theorem defaulted_item_not_checked:
  "key_events (analyze_text (stub_provider response_defaulted_item) example_loads 10 11
       (new_analyzer 50) ''Inbox'')
     = [\<lparr>ev_timestamp = 10, ev_type = JStr ''info'', ev_value = JStr '''', ev_context = JStr ''''\<rparr>,
        \<lparr>ev_timestamp = 10, ev_type = JStr ''info'', ev_value = JStr '''', ev_context = JStr ''''\<rparr>]"
  by (simp add: analyze_text_def stub_provider_def clean_response_defaulted_item
      example_loads_defaulted_item merge_result_def dict_get_def py_iter_def new_analyzer_def
      key_events_append_def deque_append_def)

text \<open>
  What the duplicate check does guarantee: when every item of a result carries a type and a
  value, merging it into a collection without duplicates leaves a collection without
  duplicates. This is for the values of the model: a value \<^verbatim>\<open>NaN\<close>, which
  \<^verbatim>\<open>json.loads\<close> accepts and which is unequal to itself, is not among them.
\<close>

lemma is_duplicate_list_ex:
  "is_duplicate es ty val = list_ex (\<lambda>e. py_eq (ev_type e) ty \<and> py_eq (ev_value e) val) es"
  by (induction es) auto

lemma unique_events_snoc:
  "unique_events es \<Longrightarrow> \<not> is_duplicate es (ev_type e) (ev_value e) \<Longrightarrow> unique_events (es @ [e])"
  by (induction es) (auto simp: list_ex_iff split: if_splits)

lemma unique_events_tl:
  "unique_events es \<Longrightarrow> unique_events (tl es)"
  by (cases es) simp_all

lemma unique_events_append:
  "unique_events es \<Longrightarrow> \<not> is_duplicate es (ev_type e) (ev_value e) \<Longrightarrow>
     unique_events (key_events_append n es e)"
  by (simp add: key_events_append_def deque_append_def Let_def unique_events_snoc unique_events_tl)

lemma merge_key_info_unique:
  "list_all has_type_and_value items \<Longrightarrow> unique_events es \<Longrightarrow>
     unique_events (fst (merge_key_info ts n es items)) \<and> snd (merge_key_info ts n es items) = None"
proof (induction items arbitrary: es)
  case Nil
  then show ?case by simp
next
  case (Cons item items)
  from Cons.prems(1) obtain info where item: "item = JObj info"
    and ty: "map_of info ''type'' \<noteq> None" and val: "map_of info ''value'' \<noteq> None"
    by (cases item) auto
  have same: "dict_get info ''type'' (JStr ''info'') = dict_get info ''type'' JNull"
    "dict_get info ''value'' (JStr '''') = dict_get info ''value'' JNull"
    using ty val by (auto simp: dict_get_def)
  from Cons.prems(1) have rest: "list_all has_type_and_value items" by simp
  show ?case
  proof (cases "is_duplicate es (dict_get info ''type'' JNull) (dict_get info ''value'' JNull)")
    case True
    then show ?thesis
      using Cons.IH [OF rest Cons.prems(2)] by (simp add: item)
  next
    case False
    let ?e = "\<lparr>ev_timestamp = ts,
        ev_type = dict_get info ''type'' (JStr ''info''),
        ev_value = dict_get info ''value'' (JStr ''''),
        ev_context = dict_get info ''context'' (JStr '''')\<rparr>"
    have "unique_events (key_events_append n es ?e)"
      using Cons.prems(2) False by (intro unique_events_append) (simp_all add: same)
    from Cons.IH [OF rest this] False show ?thesis
      by (simp add: item)
  qed
qed

section \<open>Unwrapping a code fence\<close>

lemma prefix_fence_iff:
  "prefix fence s = (\<exists>t. s = CHR 0x60 # CHR 0x60 # CHR 0x60 # t)"
  by (auto simp: fence_def prefix_def)

lemma prefix_fence_snoc:
  "d \<noteq> CHR 0x60 \<Longrightarrow> prefix fence (s @ [d] @ t) \<Longrightarrow> prefix fence s"
  by (cases s; cases "tl s"; cases "tl (tl s)") (auto simp: prefix_fence_iff)

lemma contains_fence_appendI2: "contains_fence b \<Longrightarrow> contains_fence (a @ b)"
  by (induction a) auto

lemma contains_fence_appendI1: "contains_fence a \<Longrightarrow> contains_fence (a @ b)"
  by (induction a) (auto simp: prefix_fence_iff)

lemma split_fence_first:
  "\<not> contains_fence m \<Longrightarrow> d \<noteq> CHR 0x60 \<Longrightarrow>
     split_fence acc (m @ [d] @ fence @ rest) = (rev acc @ m @ [d]) # split_fence [] rest"
proof (induction m arbitrary: acc)
  case Nil
  then show ?case by (simp add: fence_def)
next
  case (Cons c m)
  have "\<not> prefix fence ((c # m) @ [d] @ fence @ rest)"
    using Cons.prems prefix_fence_snoc [of d "c # m" "fence @ rest"] by auto
  then show ?case using Cons by simp
qed

lemma last_dropWhile:
  "dropWhile P xs \<noteq> [] \<Longrightarrow> last (dropWhile P xs) = last xs"
proof -
  assume ne: "dropWhile P xs \<noteq> []"
  have "xs = takeWhile P xs @ dropWhile P xs" by simp
  then have "last xs = last (takeWhile P xs @ dropWhile P xs)" by simp
  also have "\<dots> = last (dropWhile P xs)" using ne by (rule last_appendR)
  finally show ?thesis by simp
qed

lemma py_strip_idem: "py_strip (py_strip s) = py_strip s"
proof (cases "py_strip s = []")
  case True
  then show ?thesis by (simp add: py_strip_empty)
next
  case False
  define t where "t = dropWhile is_space s"
  define u where "u = dropWhile is_space (rev t)"
  have ps: "py_strip s = rev u" by (simp add: py_strip_def t_def u_def)
  with False have une: "u \<noteq> []" by simp
  then have tne: "t \<noteq> []" by (auto simp: u_def)
  have "\<not> is_space (hd u)" using une unfolding u_def by (rule hd_dropWhile)
  then have l: "\<not> is_space (last (rev u))" using une by (simp add: last_rev)
  have "last u = last (rev t)" using une unfolding u_def by (rule last_dropWhile)
  then have "hd (rev u) = hd t" using une tne by (simp add: hd_rev last_rev)
  moreover have "\<not> is_space (hd t)" using tne unfolding t_def by (rule hd_dropWhile)
  ultimately have h: "\<not> is_space (hd (rev u))" by simp
  show ?thesis unfolding ps using une h l by (intro py_strip_no_space) simp_all
qed

lemma py_strip_sandwich: "py_strip s = u \<Longrightarrow> \<exists>a b. s = a @ u @ b"
proof -
  assume "py_strip s = u"
  define t where "t = dropWhile is_space s"
  have "s = takeWhile is_space s @ t" by (simp add: t_def)
  moreover have "rev t = takeWhile is_space (rev t) @ dropWhile is_space (rev t)" by simp
  then have "t = rev (dropWhile is_space (rev t)) @ rev (takeWhile is_space (rev t))"
    by (metis rev_append rev_rev_ident)
  ultimately have "s = takeWhile is_space s @ py_strip s @ rev (takeWhile is_space (rev t))"
    by (simp add: py_strip_def t_def)
  then show ?thesis using \<open>py_strip s = u\<close> by blast
qed

lemma py_strip_leading: "is_space c \<Longrightarrow> py_strip (c # s) = py_strip s"
  by (simp add: py_strip_def)

lemma py_strip_trailing: "is_space c \<Longrightarrow> py_strip (s @ [c]) = py_strip s"
proof (cases "\<forall>x\<in>set s. is_space x")
  case True
  assume "is_space c"
  with True have a: "dropWhile is_space (s @ [c]) = []" and b: "dropWhile is_space s = []"
    by simp_all
  show ?thesis unfolding py_strip_def a b by simp
next
  case False
  assume c: "is_space c"
  from False obtain x where "x \<in> set s" and "\<not> is_space x" by blast
  then have "dropWhile is_space (s @ [c]) = dropWhile is_space s @ [c]"
    by (rule dropWhile_append1)
  then show ?thesis using c by (simp add: py_strip_def)
qed

lemma py_strip_newlines: "py_strip (CHR 0x0A # s @ [CHR 0x0A]) = py_strip s"
proof -
  have nl: "is_space (CHR 0x0A)" by (simp add: is_space_def)
  have "py_strip (CHR 0x0A # s @ [CHR 0x0A]) = py_strip (s @ [CHR 0x0A])"
    using nl by (rule py_strip_leading)
  also have "\<dots> = py_strip s" using nl by (rule py_strip_trailing)
  finally show ?thesis .
qed

lemma not_contains_fence_strip: "\<not> contains_fence s \<Longrightarrow> \<not> contains_fence (py_strip s)"
proof
  assume n: "\<not> contains_fence s" and c: "contains_fence (py_strip s)"
  obtain a b where "s = a @ py_strip s @ b"
    using py_strip_sandwich [of s "py_strip s"] by blast
  moreover have "contains_fence (a @ py_strip s @ b)"
    using c by (intro contains_fence_appendI2 contains_fence_appendI1)
  ultimately show False using n by simp
qed

lemma contains_fence_prefix: "prefix fence s \<Longrightarrow> contains_fence s"
  by (cases s) (auto simp: fence_def)

lemma clean_response_bare:
  assumes "\<not> contains_fence body"
  shows "clean_response body = Inr (py_strip body)"
proof -
  have "\<not> prefix fence (py_strip body)"
    using not_contains_fence_strip [OF assms] contains_fence_prefix by blast
  then show ?thesis
    by (simp add: clean_response_def Let_def startswith_def py_strip_idem)
qed

lemma contains_fence_Cons: "c \<noteq> CHR 0x60 \<Longrightarrow> contains_fence (c # s) = contains_fence s"
  by (simp add: prefix_fence_iff)

lemma contains_fence_snoc: "d \<noteq> CHR 0x60 \<Longrightarrow> contains_fence (s @ [d]) = contains_fence s"
proof (induction s)
  case Nil
  then show ?case by (simp add: prefix_fence_iff)
next
  case (Cons c s)
  have "prefix fence (c # s @ [d]) = prefix fence (c # s)"
    using Cons.prems prefix_fence_snoc [of d "c # s" "[]"] 
    by (auto simp: prefix_fence_iff)
  with Cons show ?case by simp
qed

lemma clean_response_fenced:
  assumes "\<not> contains_fence body" and "tag = [] \<or> tag = ''json''"
  shows "clean_response (wrap_fence tag body) = Inr (py_strip body)"
proof -
  let ?w = "wrap_fence tag body"
  have w: "?w = CHR 0x60 # CHR 0x60 # CHR 0x60 # (tag @ CHR 0x0A # body) @ [CHR 0x0A] @ fence @ []"
    by (simp add: wrap_fence_def fence_def)
  have "?w \<noteq> []" "\<not> is_space (hd ?w)" "\<not> is_space (last ?w)"
    by (simp_all add: wrap_fence_def fence_def is_space_def)
  then have strip: "py_strip ?w = ?w" by (rule py_strip_no_space)
  have starts: "startswith ?w fence"
    by (simp add: startswith_def wrap_fence_def)
  have mid: "\<not> contains_fence (tag @ CHR 0x0A # body)"
    using assms by (auto simp: contains_fence_Cons prefix_fence_iff)
  have "split_fence [] ?w = [] # split_fence [] ((tag @ CHR 0x0A # body) @ [CHR 0x0A] @ fence @ [])"
    unfolding w by (simp add: fence_def)
  also have "\<dots> = [] # (tag @ CHR 0x0A # body @ [CHR 0x0A]) # split_fence [] []"
    using split_fence_first [OF mid, of "CHR 0x0A" "[]" "[]"] by simp
  finally have pieces: "split_fence [] ?w = [[], tag @ CHR 0x0A # body @ [CHR 0x0A], []]"
    by simp
  have "py_strip (if startswith (tag @ CHR 0x0A # body @ [CHR 0x0A]) ''json''
      then drop 4 (tag @ CHR 0x0A # body @ [CHR 0x0A]) else tag @ CHR 0x0A # body @ [CHR 0x0A])
      = py_strip body"
    using assms(2) by (auto simp: startswith_def py_strip_newlines)
  then show ?thesis
    by (simp add: clean_response_def Let_def strip starts pieces del: split_fence.simps)
qed

lemma clean_response_with_backticks:
  "clean_response response_with_backticks = Inr response_with_backticks"
  by (simp add: clean_response_def response_with_backticks_def py_strip_def is_space_def
      startswith_def fence_def)

lemma clean_response_fenced_with_backticks:
  "clean_response (wrap_fence ''json'' response_with_backticks) = Inr piece_before_backticks"
  by (simp add: clean_response_def response_with_backticks_def piece_before_backticks_def
      wrap_fence_def py_strip_def is_space_def startswith_def fence_def)

lemma example_loads_with_backticks:
  "example_loads response_with_backticks = Inr (JObj [(''activity'', JStr ''a```b'')])"
  by (simp add: example_loads_def response_two_equal_items_def
      response_defaulted_item_def response_otp_twice_def response_bad_key_info_def
      response_not_an_object_def response_with_backticks_def)

lemma example_loads_piece:
  "example_loads piece_before_backticks = Inl (Exception ''JSONDecodeError'')"
  by (simp add: example_loads_def piece_before_backticks_def response_two_equal_items_def
      response_defaulted_item_def response_otp_twice_def response_bad_key_info_def
      response_not_an_object_def response_with_backticks_def response_plain_def
      response_malformed_def)

text \<open>
  Claim C8, as stated, fails. The body \<^verbatim>\<open>{"activity": "a```b"}\<close> is valid JSON with
  three backticks inside a string. Bare, it parses and the cycle sets the activity and the
  last analysis time. Wrapped in a \<^verbatim>\<open>```json\<close> fence, the split at the backticks keeps
  only \<^verbatim>\<open>{"activity": "a\<close>, which does not parse, and the cycle changes nothing.
\<close>

theorem backticks_in_body_change_result:
  "clean_response response_with_backticks = Inr response_with_backticks
   \<and> clean_response (wrap_fence ''json'' response_with_backticks) = Inr piece_before_backticks
   \<and> analyze_text (stub_provider response_with_backticks) example_loads 10 11 (new_analyzer 50) ''Inbox''
       = (new_analyzer 50)\<lparr>current_activity := JStr ''a```b'', last_analysis_time := Some 11\<rparr>
   \<and> analyze_text (stub_provider (wrap_fence ''json'' response_with_backticks)) example_loads 10 11
         (new_analyzer 50) ''Inbox''
       = new_analyzer 50
   \<and> analyze_text (stub_provider (wrap_fence ''json'' response_with_backticks)) example_loads 10 11
         (new_analyzer 50) ''Inbox''
       \<noteq> analyze_text (stub_provider response_with_backticks) example_loads 10 11 (new_analyzer 50) ''Inbox''"
proof -
  have bare: "analyze_text (stub_provider response_with_backticks) example_loads 10 11 (new_analyzer 50) ''Inbox''
       = (new_analyzer 50)\<lparr>current_activity := JStr ''a```b'', last_analysis_time := Some 11\<rparr>"
    by (simp add: analyze_text_def stub_provider_def clean_response_with_backticks
        example_loads_with_backticks merge_result_def dict_get_def py_iter_def new_analyzer_def)
  have fenced: "analyze_text (stub_provider (wrap_fence ''json'' response_with_backticks)) example_loads 10 11
         (new_analyzer 50) ''Inbox'' = new_analyzer 50"
    by (simp add: analyze_text_def stub_provider_def clean_response_fenced_with_backticks
        example_loads_piece)
  have "(new_analyzer 50)\<lparr>current_activity := JStr ''a```b'', last_analysis_time := Some 11\<rparr>
      \<noteq> new_analyzer 50"
    by (simp add: new_analyzer_def)
  then show ?thesis
    by (simp add: bare fenced clean_response_with_backticks clean_response_fenced_with_backticks)
qed

text \<open>
  Claim C8, amended. For every response body in which three consecutive backticks do not
  occur, the body wrapped in a code fence (a fence line \<^verbatim>\<open>```\<close> or \<^verbatim>\<open>```json\<close>, the
  body, a closing fence line) is cleaned to the same text as the bare body, the stripped
  body; so the same text reaches the parser and the analysis ends in the same state.
\<close>

theorem fenced_response_same_as_bare:
  assumes "\<not> contains_fence body" and "tag = [] \<or> tag = ''json''"
  shows "clean_response (wrap_fence tag body) = Inr (py_strip body)
    \<and> clean_response body = Inr (py_strip body)
    \<and> analyze_text (stub_provider (wrap_fence tag body)) loads ts now st text
        = analyze_text (stub_provider body) loads ts now st text"
  using clean_response_fenced [OF assms] clean_response_bare [OF assms(1)]
  by (simp add: analyze_text_def stub_provider_def)

lemma response_plain_no_fence: "\<not> contains_fence response_plain"
  by (simp add: response_plain_def fence_def)

lemma py_strip_response_plain: "py_strip response_plain = response_plain"
  by (simp add: response_plain_def py_strip_def is_space_def)

theorem fenced_response_same_as_bare_witness:
  "\<not> contains_fence response_plain
   \<and> clean_response (wrap_fence ''json'' response_plain) = Inr response_plain
   \<and> clean_response (wrap_fence [] response_plain) = Inr response_plain
   \<and> clean_response response_plain = Inr response_plain
   \<and> analyze_text (stub_provider (wrap_fence ''json'' response_plain)) example_loads 10 11
         (new_analyzer 50) ''Inbox''
       = analyze_text (stub_provider response_plain) example_loads 10 11 (new_analyzer 50) ''Inbox''"
  using fenced_response_same_as_bare [of response_plain "''json''" example_loads 10 11
      "new_analyzer 50" "''Inbox''", OF response_plain_no_fence]
    fenced_response_same_as_bare [of response_plain "[]" example_loads 10 11
      "new_analyzer 50" "''Inbox''", OF response_plain_no_fence]
    response_plain_no_fence
  by (simp add: py_strip_response_plain)

end
